theory Spec2Isabelle
  imports Main
begin

section \<open>Python strings and values\<close>

text \<open>
  A Python \<open>str\<close> is modelled as a \<^typ>\<open>string\<close> whose characters are the code points
  below 256. \<open>isspace\<close> is \<open>str.isspace\<close> on one character: the characters that
  \<open>str.strip()\<close> removes. \<open>num_space\<close> is the smaller set that \<open>int()\<close> and
  \<open>float()\<close> skip around a number: they do not skip U+001C .. U+001F.
\<close>

definition isspace :: "char \<Rightarrow> bool" where
  "isspace c = ((of_char c :: nat) \<in> {9, 10, 11, 12, 13, 28, 29, 30, 31, 32, 133, 160})"

definition num_space :: "char \<Rightarrow> bool" where
  "num_space c = ((of_char c :: nat) \<in> {9, 10, 11, 12, 13, 32, 133, 160})"

definition strip_with :: "(char \<Rightarrow> bool) \<Rightarrow> string \<Rightarrow> string" where
  "strip_with p s = rev (dropWhile p (rev (dropWhile p s)))"

definition strip :: "string \<Rightarrow> string" where
  "strip s = strip_with isspace s"

definition isdigit :: "char \<Rightarrow> bool" where
  "isdigit c = (c \<in> set ''0123456789'')"

definition digit_val :: "char \<Rightarrow> nat" where
  "digit_val c = of_char c - 48"

definition nat_of_digits :: "string \<Rightarrow> nat" where
  "nat_of_digits ds = foldl (\<lambda>n c. 10 * n + digit_val c) 0 ds"

text \<open>
  Numeric literals may hold single underscores between digits. \<open>drop_underscores d s\<close>
  removes them, or is \<open>None\<close> where an underscore does not stand between two digits;
  \<open>d\<close> says whether the character before \<open>s\<close> was a digit.
\<close>

fun drop_underscores :: "bool \<Rightarrow> string \<Rightarrow> string option" where
  "drop_underscores d [] = Some []"
| "drop_underscores d (c # cs) =
     (if c = CHR ''_'' then
        (case cs of
           [] \<Rightarrow> None
         | c' # _ \<Rightarrow> if d \<and> isdigit c' then drop_underscores False cs else None)
      else map_option (Cons c) (drop_underscores (isdigit c) cs))"

definition drop_sign :: "string \<Rightarrow> string" where
  "drop_sign s = (case s of [] \<Rightarrow> [] | c # cs \<Rightarrow> if c = CHR ''+'' \<or> c = CHR ''-'' then cs else s)"

definition negative :: "string \<Rightarrow> bool" where
  "negative s = (case s of [] \<Rightarrow> False | c # cs \<Rightarrow> c = CHR ''-'')"

text \<open>
  \<open>py_int s\<close> is \<open>int(s)\<close> for a string, base 10: \<open>None\<close> is \<open>ValueError\<close>.
  White space around the number is skipped, one sign is read, then digits with single
  underscores between them; leading zeros are accepted. The interpreter's limit on the
  number of digits (\<open>sys.set_int_max_str_digits\<close>, from Python 3.11) is taken as
  disabled, as it is in every earlier version the package supports.
\<close>

definition py_int :: "string \<Rightarrow> int option" where
  "py_int s =
     (let t = strip_with num_space s in
      case drop_underscores False (drop_sign t) of
        None \<Rightarrow> None
      | Some ds \<Rightarrow>
          if ds = [] then None
          else if list_all isdigit ds
          then Some (if negative t then - int (nat_of_digits ds) else int (nat_of_digits ds))
          else None)"

text \<open>
  \<open>float_syntax s\<close> says whether \<open>float(s)\<close> returns for a string (it raises
  \<open>ValueError\<close> otherwise): underscores between digits are removed from the whole
  text, white space around it is skipped, one sign is read, and the rest is \<open>inf\<close>,
  \<open>infinity\<close> or \<open>nan\<close> in any letter case, or a decimal literal with at least
  one digit and an optional exponent.
\<close>

definition tolower :: "char \<Rightarrow> char" where
  "tolower c = (if c \<in> set ''ABCDEFGHIJKLMNOPQRSTUVWXYZ'' then char_of (of_char c + (32::nat)) else c)"

definition exponent_syntax :: "string \<Rightarrow> bool" where
  "exponent_syntax s =
     (case s of
        [] \<Rightarrow> True
      | e # r \<Rightarrow> (e = CHR ''e'' \<or> e = CHR ''E'') \<and> drop_sign r \<noteq> [] \<and> list_all isdigit (drop_sign r))"

definition decimal_syntax :: "string \<Rightarrow> bool" where
  "decimal_syntax s =
     (let ip = takeWhile isdigit s; r1 = dropWhile isdigit s in
      case r1 of
        c # r \<Rightarrow>
          if c = CHR ''.''
          then (ip \<noteq> [] \<or> takeWhile isdigit r \<noteq> []) \<and> exponent_syntax (dropWhile isdigit r)
          else ip \<noteq> [] \<and> exponent_syntax r1
      | [] \<Rightarrow> ip \<noteq> [])"

definition float_syntax :: "string \<Rightarrow> bool" where
  "float_syntax s =
     (case drop_underscores False s of
        None \<Rightarrow> False
      | Some t \<Rightarrow>
          (let u = drop_sign (strip_with num_space t) in
           map tolower u \<in> {''inf'', ''infinity'', ''nan''} \<or> decimal_syntax u))"

text \<open>
  The values a parsed field can take: absent (\<open>None\<close>), an integer, a float, a string.
  Floating-point arithmetic is not modelled: the type \<open>'f\<close> of floats is a parameter, and
  so is the function that gives the float a literal denotes.
\<close>

datatype 'f pyval = PNone | PInt int | PFloat 'f | PStr string

section \<open>Errors\<close>

text \<open>
  The source has one exception class of its own, \<open>CodeMaatError\<close>, raised with a message.
  The tag records which of the five kinds of failure the raise site stands for. The other
  constructors are the exceptions of the Python library that the source catches or lets
  through; those of opening and reading a file carry their message.
\<close>

datatype ErrorKind = configuration | validation | execution | timeout | parse

datatype exn =
    CodeMaatError ErrorKind string
  | AttributeError string
  | csv_Error string
  | CalledProcessError string
  | TimeoutExpired
  | OSError
  | FileNotFoundError string
  | IsADirectoryError string
  | NotADirectoryError string
  | PermissionError string
  | UnicodeDecodeError string

fun exn_str :: "exn \<Rightarrow> string" where
  "exn_str (CodeMaatError k m) = m"
| "exn_str (AttributeError m) = m"
| "exn_str (csv_Error m) = m"
| "exn_str (CalledProcessError m) = m"
| "exn_str TimeoutExpired = ''timed out''"
| "exn_str OSError = ''OSError''"
| "exn_str (FileNotFoundError m) = m"
| "exn_str (IsADirectoryError m) = m"
| "exn_str (NotADirectoryError m) = m"
| "exn_str (PermissionError m) = m"
| "exn_str (UnicodeDecodeError m) = m"

section \<open>The world and the library the wrapper runs on\<close>

text \<open>
  The file system and the processes are explicit state. \<open>existing\<close> is the set of
  paths for which \<open>os.path.exists\<close> holds. \<open>text_of p\<close> is what opening \<open>p\<close> for
  reading and reading its text gives: the text, or the exception raised
  (\<open>FileNotFoundError\<close>, \<open>IsADirectoryError\<close>, \<open>PermissionError\<close>,
  \<open>UnicodeDecodeError\<close>, ...). \<open>open_w_error p\<close> is the exception that opening \<open>p\<close>
  for writing raises, if it raises one (a missing directory, a path that is a directory, a
  permission); the text written to a file that has been opened is taken to arrive.
  \<open>invocations\<close> is the log of the calls of \<open>subprocess.run\<close>, each with its argument
  vector, working directory and timeout in seconds.
\<close>

type_synonym invocation = "string list \<times> string option \<times> nat option"

record world =
  existing :: "string set"
  text_of :: "string \<Rightarrow> exn + string"
  open_w_error :: "string \<Rightarrow> exn option"
  invocations :: "invocation list"

text \<open>
  What became of a process: it exited with a status, its standard output and its standard
  error; it had not ended when the timeout expired; or it could not be started.
\<close>

datatype proc_outcome = Exited int string string | Expired | Unstartable

text \<open>
  A decoded configuration document, as far as the wrapper reads it. The document is a
  JSON object, which may have a value under \<open>code_maat\<close>, or it is another JSON value,
  known by the name of its Python type (\<open>list\<close>, \<open>str\<close>, \<open>NoneType\<close>, ...). The
  value under \<open>code_maat\<close> is an object or, again, another value. In that object each
  of the three keys may be missing and \<open>java_opts\<close> may be \<open>null\<close>; their values
  are taken at the types the dataclass declares.
\<close>

record code_maat_section =
  section_jar_path :: "string option"
  section_java_executable :: "string option"
  section_java_opts :: "string list option option"

datatype section_value = Section code_maat_section | NotDict string

datatype config_data = Document "section_value option" | NotDocument string

text \<open>
  What the Python library and the operating system compute and this theory does not:
  \<^item> \<open>float_value\<close>: the float a literal denotes;
  \<^item> \<open>csv_reader\<close>: the rows \<open>csv.reader\<close> reads from a text. The reader is lazy: it
    yields rows and may then raise \<open>csv.Error\<close>, so its result is the list of rows
    read and the message of the error that ended the reading, if one did;
  \<^item> \<open>json_load\<close>: the decoded configuration document, \<open>None\<close> for
    \<open>JSONDecodeError\<close>;
  \<^item> \<open>module_dir\<close>: \<open>os.path.dirname(__file__)\<close>, and \<open>base_dir\<close>:
    \<open>Path(__file__).parent.parent\<close>;
  \<^item> \<open>path_str p\<close>: \<open>str(Path(p))\<close>, and \<open>path_resolve b p\<close>:
    \<open>str((Path(b) / p).resolve())\<close>;
  \<^item> \<open>set_order\<close>: the order in which a set of strings is iterated;
  \<^item> \<open>process\<close>: what becomes of a process started in a world with an argument
    vector, a working directory and a timeout.
\<close>

record 'f runtime =
  float_value :: "string \<Rightarrow> 'f"
  csv_reader :: "string \<Rightarrow> string list list \<times> string option"
  json_load :: "string \<Rightarrow> config_data option"
  module_dir :: string
  base_dir :: string
  path_str :: "string \<Rightarrow> string"
  path_resolve :: "string \<Rightarrow> string \<Rightarrow> string"
  set_order :: "string list \<Rightarrow> string list"
  process :: "world \<Rightarrow> string list \<Rightarrow> string option \<Rightarrow> nat option \<Rightarrow> proc_outcome"

section \<open>Result parsing\<close>

text \<open>
  A value in a row of \<open>csv.DictReader\<close>: a field of the line, \<open>None\<close> for a column the
  line is too short for, or the list of the fields beyond the last column.
\<close>

datatype cell = CStr string | CNone | CList "string list"

text \<open>
  \<open>_convert_value\<close> of the source (a name cannot begin with an underscore here). On a
  list, \<open>not value\<close> is false unless the list is empty, and \<open>value.strip()\<close> raises
  \<open>AttributeError\<close>.
\<close>

definition list_has_no_strip :: string where
  "list_has_no_strip =
     CHR 0x27 # ''list'' @ CHR 0x27 # '' object has no attribute '' @ CHR 0x27 # ''strip'' @ [CHR 0x27]"

definition convert_value :: "'f runtime \<Rightarrow> cell \<Rightarrow> exn + 'f pyval" where
  "convert_value py value =
     (case value of
        CNone \<Rightarrow> Inr PNone
      | CList l \<Rightarrow>
          if l = [] then Inr PNone
          else Inl (AttributeError list_has_no_strip)
      | CStr v \<Rightarrow>
          if v = [] \<or> strip v = [] then Inr PNone
          else (case py_int v of
                  Some i \<Rightarrow> Inr (PInt i)
                | None \<Rightarrow>
                    if float_syntax v then Inr (PFloat (float_value py v))
                    else Inr (PStr (strip v))))"

text \<open>
  A Python \<open>dict\<close> keeps its keys in insertion order: an association list with
  distinct keys, where assigning to a key that is present keeps its place.
\<close>

fun dict_set :: "('k \<times> 'v) list \<Rightarrow> 'k \<Rightarrow> 'v \<Rightarrow> ('k \<times> 'v) list" where
  "dict_set [] k v = [(k, v)]"
| "dict_set ((k', v') # d) k v = (if k' = k then (k, v) # d else (k', v') # dict_set d k v)"

definition dict_of :: "('k \<times> 'v) list \<Rightarrow> ('k \<times> 'v) list" where
  "dict_of kvs = foldl (\<lambda>d (k, v). dict_set d k v) [] kvs"

text \<open>
  One row of \<open>csv.DictReader\<close> (\<open>restkey\<close> and \<open>restval\<close> are \<open>None\<close>): the fields
  zipped with the column names; the surplus fields as a list under the key \<open>None\<close>;
  \<open>None\<close> under each column name the row is too short for.
\<close>

definition DictReader_row :: "string list \<Rightarrow> string list \<Rightarrow> (string option \<times> cell) list" where
  "DictReader_row fieldnames row =
     (let d = dict_of (zip (map Some fieldnames) (map CStr row));
          lf = length fieldnames;
          lr = length row
      in if lf < lr then dict_set d None (CList (drop lf row))
         else if lf > lr then foldl (\<lambda>d key. dict_set d (Some key) CNone) d (drop lr fieldnames)
         else d)"

type_synonym 'f result_record = "(string option \<times> 'f pyval) list"

text \<open>The inner loop of \<open>_parse_csv_output\<close>, over the items of one row.\<close>

fun convert_items ::
  "'f runtime \<Rightarrow> (string option \<times> cell) list \<Rightarrow> 'f result_record \<Rightarrow> exn + 'f result_record" where
  "convert_items py [] converted_row = Inr converted_row"
| "convert_items py ((key, value) # items) converted_row =
     (case convert_value py value of
        Inl e \<Rightarrow> Inl e
      | Inr v \<Rightarrow> convert_items py items (dict_set converted_row key v))"

text \<open>
  The outer loop, over the rows after the header row. \<open>DictReader\<close> skips the rows
  that have no field at all (blank lines).
\<close>

fun parse_rows ::
  "'f runtime \<Rightarrow> string list \<Rightarrow> string list list \<Rightarrow> 'f result_record list
     \<Rightarrow> exn + 'f result_record list" where
  "parse_rows py fieldnames [] results = Inr results"
| "parse_rows py fieldnames (row # rows) results =
     (if row = [] then parse_rows py fieldnames rows results
      else (case convert_items py (DictReader_row fieldnames row) [] of
              Inl e \<Rightarrow> Inl e
            | Inr converted_row \<Rightarrow> parse_rows py fieldnames rows (results @ [converted_row])))"

text \<open>
  \<open>_parse_csv_output\<close>. The first row read is the header row. Every exception of the
  loop, and the error of the reader once its rows are used up, is caught and raised again
  as \<open>CodeMaatError\<close>.
\<close>

definition parse_csv_output :: "'f runtime \<Rightarrow> string \<Rightarrow> exn + 'f result_record list" where
  "parse_csv_output py csv_output =
     (if strip csv_output = [] then Inr []
      else (case csv_reader py csv_output of
              (rows, err) \<Rightarrow>
                (case (case rows of
                         [] \<Rightarrow> Inr []
                       | fieldnames # data \<Rightarrow> parse_rows py fieldnames data []) of
                   Inl e \<Rightarrow>
                     Inl (CodeMaatError parse (''Failed to parse CSV output: '' @ exn_str e))
                 | Inr results \<Rightarrow>
                     (case err of
                        Some m \<Rightarrow>
                          Inl (CodeMaatError parse (''Failed to parse CSV output: '' @ m))
                      | None \<Rightarrow> Inr results))))"

section \<open>Configuration\<close>

record CodeMaatConfig =
  jar_path :: string
  java_executable :: string
  java_opts :: "string list"

definition default_java_opts :: "string list" where
  "default_java_opts = [''-Xmx4g'', ''-Djava.awt.headless=true'', ''-Xss512M'']"

definition default_jar_path :: string where
  "default_jar_path = ''../target/code-maat-1.0.5-SNAPSHOT-standalone.jar''"

text \<open>The constructor of the dataclass, with its \<open>__post_init__\<close>.\<close>

definition CodeMaatConfig_init :: "string \<Rightarrow> string \<Rightarrow> string list option \<Rightarrow> CodeMaatConfig" where
  "CodeMaatConfig_init jar exe opts =
     \<lparr>jar_path = jar, java_executable = exe,
      java_opts = (case opts of None \<Rightarrow> default_java_opts | Some l \<Rightarrow> l)\<rparr>"

definition os_path_join :: "string \<Rightarrow> string \<Rightarrow> string" where
  "os_path_join a b =
     (if b \<noteq> [] \<and> hd b = CHR ''/'' then b
      else if a = [] then b
      else if last a = CHR ''/'' then a @ b
      else a @ ''/'' @ b)"

definition get_or :: "'a option \<Rightarrow> 'a \<Rightarrow> 'a" where
  "get_or v d = (case v of None \<Rightarrow> d | Some x \<Rightarrow> x)"

text \<open>
  \<open>_load_config\<close>. \<open>config_file\<close> is the path it opens. The \<open>except\<close> clause
  names \<open>FileNotFoundError\<close> and \<open>JSONDecodeError\<close>: for these the defaults stand
  in. Every other exception of opening and reading the file leaves the function as it
  is, and so does the \<open>AttributeError\<close> of calling \<open>get\<close> on a document, or on a
  value under \<open>code_maat\<close>, that is not an object.
\<close>

definition config_file :: "'f runtime \<Rightarrow> string option \<Rightarrow> string" where
  "config_file py config_path =
     (case config_path of
        None \<Rightarrow> os_path_join (os_path_join (module_dir py) ''..'') ''mcp_config.json''
      | Some p \<Rightarrow> p)"

definition no_attribute :: "string \<Rightarrow> string \<Rightarrow> string" where
  "no_attribute ty name =
     CHR 0x27 # ty @ CHR 0x27 # '' object has no attribute '' @ CHR 0x27 # name @ [CHR 0x27]"

definition section_config :: "code_maat_section \<Rightarrow> CodeMaatConfig" where
  "section_config code_maat_config =
     CodeMaatConfig_init
       (get_or (section_jar_path code_maat_config) default_jar_path)
       (get_or (section_java_executable code_maat_config) ''java'')
       (get_or (section_java_opts code_maat_config) (Some default_java_opts))"

definition load_config :: "'f runtime \<Rightarrow> world \<Rightarrow> string option \<Rightarrow> exn + CodeMaatConfig" where
  "load_config py w config_path =
     (case text_of w (config_file py config_path) of
        Inl e \<Rightarrow>
          (case e of
             FileNotFoundError m \<Rightarrow> Inr (CodeMaatConfig_init default_jar_path ''java'' None)
           | _ \<Rightarrow> Inl e)
      | Inr text \<Rightarrow>
          (case json_load py text of
             None \<Rightarrow> Inr (CodeMaatConfig_init default_jar_path ''java'' None)
           | Some (NotDocument ty) \<Rightarrow> Inl (AttributeError (no_attribute ty ''get''))
           | Some (Document None) \<Rightarrow>
               Inr (section_config
                      \<lparr>section_jar_path = None, section_java_executable = None,
                       section_java_opts = None\<rparr>)
           | Some (Document (Some (NotDict ty))) \<Rightarrow>
               Inl (AttributeError (no_attribute ty ''get''))
           | Some (Document (Some (Section code_maat_config))) \<Rightarrow>
               Inr (section_config code_maat_config)))"

definition is_absolute :: "string \<Rightarrow> bool" where
  "is_absolute p = (case p of [] \<Rightarrow> False | c # cs \<Rightarrow> c = CHR ''/'')"

definition os_path_exists :: "world \<Rightarrow> string \<Rightarrow> bool" where
  "os_path_exists w p = (p \<in> existing w)"

text \<open>\<open>_validate_config\<close>: the configuration with the path of the JAR rewritten, or the error.\<close>

definition validate_config :: "'f runtime \<Rightarrow> world \<Rightarrow> CodeMaatConfig \<Rightarrow> exn + CodeMaatConfig" where
  "validate_config py w config =
     (let jar = (if is_absolute (jar_path config) then path_str py (jar_path config)
                 else path_resolve py (base_dir py) (jar_path config))
      in if os_path_exists w jar then Inr (config\<lparr>jar_path := jar\<rparr>)
         else Inl (CodeMaatError configuration (''Code Maat JAR not found at: '' @ jar)))"

text \<open>\<open>CodeMaatWrapper.__init__\<close>: the configuration the wrapper holds, or the error.\<close>

definition CodeMaatWrapper_init :: "'f runtime \<Rightarrow> world \<Rightarrow> string option \<Rightarrow> exn + CodeMaatConfig" where
  "CodeMaatWrapper_init py w config_path =
     (case load_config py w config_path of
        Inl e \<Rightarrow> Inl e
      | Inr config \<Rightarrow> validate_config py w config)"

text \<open>
  What \<open>pathlib\<close> promises of the two path functions: a resolved path is absolute and
  is its own string form; the string form of an absolute path is absolute and is its own
  string form.
\<close>

definition pathlib_contract :: "'f runtime \<Rightarrow> bool" where
  "pathlib_contract py =
     ((\<forall>b p. is_absolute (path_resolve py b p) \<and> path_str py (path_resolve py b p) = path_resolve py b p)
      \<and> (\<forall>p. is_absolute p \<longrightarrow>
             is_absolute (path_str py p) \<and> path_str py (path_str py p) = path_str py p))"

section \<open>Validation of a request\<close>

definition SUPPORTED_VCS :: "string list" where
  "SUPPORTED_VCS = [''git'', ''git2'', ''svn'', ''hg'', ''p4'', ''tfs'']"

definition SUPPORTED_ANALYSES :: "string list" where
  "SUPPORTED_ANALYSES =
     [''authors'', ''revisions'', ''coupling'', ''soc'', ''summary'', ''identity'',
      ''abs-churn'', ''author-churn'', ''entity-churn'', ''entity-ownership'',
      ''main-dev'', ''refactoring-main-dev'', ''entity-effort'', ''main-dev-by-revs'',
      ''fragmentation'', ''communication'', ''messages'', ''age'']"

fun join :: "string \<Rightarrow> string list \<Rightarrow> string" where
  "join sep [] = []"
| "join sep [x] = x"
| "join sep (x # y # xs) = x @ sep @ join sep (y # xs)"

definition validate_inputs :: "'f runtime \<Rightarrow> world \<Rightarrow> string \<Rightarrow> string \<Rightarrow> string \<Rightarrow> exn + bool" where
  "validate_inputs py w log_file vcs analysis =
     (if \<not> os_path_exists w log_file
      then Inl (CodeMaatError validation (''Log file not found: '' @ log_file))
      else if vcs \<notin> set SUPPORTED_VCS
      then Inl (CodeMaatError validation
                  (''Unsupported VCS: '' @ vcs @ ''. Supported: ''
                     @ join '', '' (set_order py SUPPORTED_VCS)))
      else if analysis \<notin> set SUPPORTED_ANALYSES
      then Inl (CodeMaatError validation
                  (''Unsupported analysis: '' @ analysis @ ''. Supported: ''
                     @ join '', '' (set_order py SUPPORTED_ANALYSES)))
      else Inr True)"

section \<open>Building the command\<close>

text \<open>
  The values of the optional parameters: \<open>None\<close> and the types the tools pass
  (booleans, integers, strings). \<open>py_str\<close> is \<open>str()\<close> and \<open>truthy\<close> is the
  truth value on them.
\<close>

datatype arg = ANone | ABool bool | AInt int | AStr string

fun str_nat :: "nat \<Rightarrow> string" where
  "str_nat n =
     (if n < 10 then [''0123456789'' ! n]
      else str_nat (n div 10) @ [''0123456789'' ! (n mod 10)])"

definition str_int :: "int \<Rightarrow> string" where
  "str_int i = (if i < 0 then CHR ''-'' # str_nat (nat (- i)) else str_nat (nat i))"

fun py_str :: "arg \<Rightarrow> string" where
  "py_str ANone = ''None''"
| "py_str (ABool b) = (if b then ''True'' else ''False'')"
| "py_str (AInt i) = str_int i"
| "py_str (AStr s) = s"

fun truthy :: "arg \<Rightarrow> bool" where
  "truthy ANone = False"
| "truthy (ABool b) = b"
| "truthy (AInt i) = (i \<noteq> 0)"
| "truthy (AStr s) = (s \<noteq> [])"

definition param_mapping :: "(string \<times> string) list" where
  "param_mapping =
     [(''rows'', ''-r''),
      (''group'', ''-g''),
      (''team_map_file'', ''-p''),
      (''min_revs'', ''-n''),
      (''min_shared_revs'', ''-m''),
      (''min_coupling'', ''-i''),
      (''max_coupling'', ''-x''),
      (''max_changeset_size'', ''-s''),
      (''expression_to_match'', ''-e''),
      (''temporal_period'', ''-t''),
      (''age_time_now'', ''-d''),
      (''input_encoding'', ''--input-encoding'')]"

text \<open>
  \<open>kwargs\<close> is a \<open>dict\<close>: the items in insertion order, the keys distinct. The loop
  of \<open>_add_optional_params\<close> over the items:
\<close>

fun extend_params :: "string list \<Rightarrow> (string \<times> arg) list \<Rightarrow> string list" where
  "extend_params cmd [] = cmd"
| "extend_params cmd ((param, value) # items) =
     (if value \<noteq> ANone
      then (case map_of param_mapping param of
              Some flag \<Rightarrow> extend_params (cmd @ [flag, py_str value]) items
            | None \<Rightarrow> extend_params cmd items)
      else extend_params cmd items)"

definition add_optional_params :: "string list \<Rightarrow> (string \<times> arg) list \<Rightarrow> string list" where
  "add_optional_params cmd kwargs =
     (let cmd' = extend_params cmd kwargs
      in if (case map_of kwargs ''verbose_results'' of None \<Rightarrow> False | Some v \<Rightarrow> truthy v)
         then cmd' @ [''--verbose-results'']
         else cmd')"

definition build_command ::
  "CodeMaatConfig \<Rightarrow> string \<Rightarrow> string \<Rightarrow> string \<Rightarrow> (string \<times> arg) list \<Rightarrow> string list" where
  "build_command config log_file vcs analysis kwargs =
     add_optional_params
       ([java_executable config] @ java_opts config
          @ [''-jar'', jar_path config, ''-l'', log_file, ''-c'', vcs, ''-a'', analysis])
       kwargs"

section \<open>Running processes\<close>

text \<open>
  \<open>subprocess.run(cmd, cwd=..., capture_output=True, text=True, check=True, timeout=...)\<close>:
  the call is logged, and the result is the captured output and error text of a process
  that exited with status 0, or the exception.
\<close>

definition subprocess_run ::
  "'f runtime \<Rightarrow> string list \<Rightarrow> string option \<Rightarrow> nat option \<Rightarrow> world
     \<Rightarrow> (exn + string \<times> string) \<times> world" where
  "subprocess_run py cmd cwd tmo w =
     (let w' = w\<lparr>invocations := invocations w @ [(cmd, cwd, tmo)]\<rparr>
      in case process py w cmd cwd tmo of
           Exited rc out err \<Rightarrow>
             if rc \<noteq> 0 then (Inl (CalledProcessError err), w') else (Inr (out, err), w')
         | Expired \<Rightarrow> (Inl TimeoutExpired, w')
         | Unstartable \<Rightarrow> (Inl OSError, w'))"

section \<open>Running an analysis\<close>

definition run_analysis ::
  "'f runtime \<Rightarrow> CodeMaatConfig \<Rightarrow> world \<Rightarrow> string \<Rightarrow> string \<Rightarrow> string \<Rightarrow> (string \<times> arg) list
     \<Rightarrow> (exn + 'f result_record list) \<times> world" where
  "run_analysis py config w log_file vcs analysis kwargs =
     (case validate_inputs py w log_file vcs analysis of
        Inl e \<Rightarrow> (Inl e, w)
      | Inr ok \<Rightarrow>
          (case subprocess_run py (build_command config log_file vcs analysis kwargs)
                  None (Some 300) w of
             (Inl (CalledProcessError stderr), w') \<Rightarrow>
               (Inl (CodeMaatError execution (''Code Maat execution failed: '' @ stderr)), w')
           | (Inl TimeoutExpired, w') \<Rightarrow>
               (Inl (CodeMaatError timeout ''Code Maat execution timed out''), w')
           | (Inl e, w') \<Rightarrow> (Inl e, w')
           | (Inr (stdout, stderr), w') \<Rightarrow> (parse_csv_output py stdout, w')))"

section \<open>Generating a log\<close>




section \<open>A concrete runtime\<close>

text \<open>
  A runtime to evaluate the wrapper on: floats are kept as their literals, the reader
  splits lines at commas, the decoder knows three documents, paths are
  resolved by dropping \<open>.\<close> and folding \<open>..\<close> (a file system without links), and
  every process exits with status 0 and no output.
\<close>

fun split_on :: "char \<Rightarrow> string \<Rightarrow> string list" where
  "split_on c [] = [[]]"
| "split_on c (x # xs) =
     (if x = c then [] # split_on c xs
      else (case split_on c xs of [] \<Rightarrow> [[x]] | y # ys \<Rightarrow> (x # y) # ys))"

text \<open>
  What \<open>csv.reader\<close> reads from a text that holds no quote and no carriage return:
  the lines, each split at its commas, a blank line being a row without fields.
\<close>

definition text_lines :: "string \<Rightarrow> string list" where
  "text_lines t = (let ls = split_on (CHR 0x0A) t in if last ls = [] then butlast ls else ls)"

definition plain_reader :: "string \<Rightarrow> string list list \<times> string option" where
  "plain_reader t =
     (map (\<lambda>line. if line = [] then [] else split_on CHR '','' line) (text_lines t), None)"

fun normalize :: "string list \<Rightarrow> string list \<Rightarrow> string list" where
  "normalize acc [] = rev acc"
| "normalize acc (p # ps) =
     (if p = [] \<or> p = ''.'' then normalize acc ps
      else if p = ''..'' then normalize (tl acc) ps
      else normalize (p # acc) ps)"

definition demo_resolve :: "string \<Rightarrow> string \<Rightarrow> string" where
  "demo_resolve b p = CHR ''/'' # join ''/'' (normalize [] (split_on CHR ''/'' (b @ ''/'' @ p)))"

text \<open>
  A decoder that knows the documents \<open>[]\<close>, \<open>null\<close> and \<open>{}\<close>; any other text is
  not JSON to it.
\<close>

definition demo_json :: "string \<Rightarrow> config_data option" where
  "demo_json t =
     (if t = ''[]'' then Some (NotDocument ''list'')
      else if t = ''null'' then Some (NotDocument ''NoneType'')
      else if t = ''{}'' then Some (Document None)
      else None)"

definition demo_runtime :: "string runtime" where
  "demo_runtime =
     \<lparr>float_value = (\<lambda>s. s),
      csv_reader = plain_reader,
      json_load = demo_json,
      module_dir = ''/srv/mcp-server/src'',
      base_dir = ''/srv/mcp-server'',
      path_str = (\<lambda>p. p),
      path_resolve = demo_resolve,
      set_order = (\<lambda>xs. xs),
      process = (\<lambda>w cmd cwd tmo. Exited 0 [] [])\<rparr>"

definition demo_config :: CodeMaatConfig where
  "demo_config =
     \<lparr>jar_path = ''/srv/target/code-maat.jar'', java_executable = ''java'',
      java_opts = [''-Xmx4g'']\<rparr>"

text \<open>
  A world with three directories, a log file, two JAR files (binary: their bytes are not
  text) and no configuration file. A file can be opened for writing where the path is not
  a directory and the directory it lies in exists.
\<close>

definition errno :: "string \<Rightarrow> string \<Rightarrow> string" where
  "errno what path = what @ '': '' @ CHR 0x27 # path @ [CHR 0x27]"

definition demo_dirs :: "string set" where
  "demo_dirs = {''/repo'', ''/tmp'', ''/srv/target''}"

definition demo_jars :: "string set" where
  "demo_jars =
     {''/srv/target/code-maat.jar'', ''/srv/target/code-maat-1.0.5-SNAPSHOT-standalone.jar''}"

definition parent_dir :: "string \<Rightarrow> string" where
  "parent_dir p = rev (drop 1 (dropWhile (\<lambda>c. c \<noteq> CHR ''/'') (rev p)))"

definition demo_text :: "string \<Rightarrow> exn + string" where
  "demo_text p =
     (if p = ''/repo/history.log'' then Inr ''--a1b2--2024-01-01--Ann''
      else if p \<in> demo_dirs then Inl (IsADirectoryError (errno ''[Errno 21] Is a directory'' p))
      else if p \<in> demo_jars then Inl (UnicodeDecodeError ''invalid start byte'')
      else Inl (FileNotFoundError (errno ''[Errno 2] No such file or directory'' p)))"

definition demo_open_w :: "string \<Rightarrow> exn option" where
  "demo_open_w p =
     (if p \<in> demo_dirs then Some (IsADirectoryError (errno ''[Errno 21] Is a directory'' p))
      else if p \<noteq> [] \<and> parent_dir p \<in> demo_dirs then None
      else Some (FileNotFoundError (errno ''[Errno 2] No such file or directory'' p)))"

definition demo_world :: world where
  "demo_world =
     \<lparr>existing = insert ''/repo/history.log'' (demo_dirs \<union> demo_jars),
      text_of = demo_text,
      open_w_error = demo_open_w,
      invocations = []\<rparr>"

text \<open>
  The same world with a configuration file: one that holds the text \<open>doc\<close>, and one
  whose bytes are not text.
\<close>

definition config_path_demo :: string where
  "config_path_demo = ''/srv/mcp-server/mcp_config.json''"

definition config_world :: "string \<Rightarrow> world" where
  "config_world doc =
     demo_world\<lparr>existing := insert config_path_demo (existing demo_world),
                text_of := (text_of demo_world)(config_path_demo := Inr doc)\<rparr>"

definition garbled_config_world :: world where
  "garbled_config_world =
     demo_world\<lparr>existing := insert config_path_demo (existing demo_world),
                text_of := (text_of demo_world)
                  (config_path_demo := Inl (UnicodeDecodeError ''invalid start byte''))\<rparr>"




section \<open>What one parameter contributes\<close>

text \<open>
  The command vector as the specification words it, to be compared with the loop of the
  source: an item whose name is in the table and whose value is not \<open>None\<close>
  contributes its flag and then its value as a string; any other item contributes
  nothing. \<open>verbose_flag\<close> is the bare flag, present where \<open>verbose_results\<close> is
  given a true value.
\<close>

definition flag_and_value :: "string \<times> arg \<Rightarrow> string list" where
  "flag_and_value item =
     (case map_of param_mapping (fst item) of
        None \<Rightarrow> []
      | Some flag \<Rightarrow> if snd item = ANone then [] else [flag, py_str (snd item)])"

definition verbose_flag :: "(string \<times> arg) list \<Rightarrow> string list" where
  "verbose_flag kwargs =
     (case map_of kwargs ''verbose_results'' of
        None \<Rightarrow> []
      | Some v \<Rightarrow> if truthy v then [''--verbose-results''] else [])"

text \<open>A cell that \<open>_convert_value\<close> accepts: anything but a list with an element.\<close>

definition plain :: "cell \<Rightarrow> bool" where
  "plain c = (case c of CList l \<Rightarrow> l = [] | _ \<Rightarrow> True)"

text \<open>A world with no file at all.\<close>

definition empty_world :: world where
  "empty_world =
     \<lparr>existing = {},
      text_of = (\<lambda>p. Inl (FileNotFoundError (errno ''[Errno 2] No such file or directory'' p))),
      open_w_error =
        (\<lambda>p. Some (FileNotFoundError (errno ''[Errno 2] No such file or directory'' p))),
      invocations = []\<rparr>"

section \<open>Empty and blank output\<close>

lemma strip_with_all: "(\<forall>c\<in>set s. p c) \<Longrightarrow> strip_with p s = []"
proof -
  assume "\<forall>c\<in>set s. p c"
  then have d: "dropWhile p s = []" by simp
  show ?thesis unfolding strip_with_def d by simp
qed

text \<open>
  C6. For every output text that is empty or consists of white space only, the result
  parser returns the empty sequence of records; it raises nothing, whatever the reader
  would do with the text.
\<close>

theorem whitespace_only_parses_to_nothing:
  "(\<forall>c\<in>set csv_output. isspace c) \<Longrightarrow> parse_csv_output py csv_output = Inr []"
  by (simp add: parse_csv_output_def strip_def strip_with_all)

theorem whitespace_only_witness:
  "list_all isspace [CHR '' '', CHR 0x0A, CHR 0x09]
   \<and> parse_csv_output demo_runtime [CHR '' '', CHR 0x0A, CHR 0x09] = Inr []"
  using whitespace_only_parses_to_nothing [of "[CHR '' '', CHR 0x0A, CHR 0x09]" demo_runtime]
  by (simp add: isspace_def)

section \<open>Conversion of a field\<close>

lemma int_07: "py_int ''07'' = Some 7" by code_simp
lemma strip_07: "strip ''07'' = ''07''" by code_simp
lemma int_3_5: "py_int ''3.5'' = None" by code_simp
lemma float_3_5: "float_syntax ''3.5''" by code_simp
lemma strip_3_5: "strip ''3.5'' = ''3.5''" by code_simp
lemma int_hi: "py_int ''  hi  '' = None" by code_simp
lemma float_hi: "\<not> float_syntax ''  hi  ''" by code_simp
lemma strip_hi: "strip ''  hi  '' = ''hi''" by code_simp
lemma strip_empty: "strip [] = []" by (simp add: strip_def strip_with_def)

text \<open>
  C2. The value of a field is decided by an ordered fallback: absent where the trimmed
  text is empty; else the integer \<open>int()\<close> reads from the field; else the float
  \<open>float()\<close> reads from it; else the trimmed text. So \<open>07\<close> is the integer 7,
  \<open>3.5\<close> is the float 3.5, \<open>hi\<close> between blanks is the string \<open>hi\<close>, and
  the empty field is absent. (Both \<open>int()\<close> and \<open>float()\<close> are given the field as
  it is and skip the white space around a number themselves.)
\<close>

theorem convert_value_ordered_fallback:
  "convert_value py (CStr v) =
     (if strip v = [] then Inr PNone
      else case py_int v of
             Some i \<Rightarrow> Inr (PInt i)
           | None \<Rightarrow> if float_syntax v then Inr (PFloat (float_value py v))
                     else Inr (PStr (strip v)))
   \<and> convert_value py (CStr ''07'') = Inr (PInt 7)
   \<and> convert_value py (CStr ''3.5'') = Inr (PFloat (float_value py ''3.5''))
   \<and> convert_value py (CStr ''  hi  '') = Inr (PStr ''hi'')
   \<and> convert_value py (CStr []) = Inr PNone"
proof -
  have general: "convert_value py (CStr v) =
     (if strip v = [] then Inr PNone
      else case py_int v of
             Some i \<Rightarrow> Inr (PInt i)
           | None \<Rightarrow> if float_syntax v then Inr (PFloat (float_value py v))
                     else Inr (PStr (strip v)))" for v
    by (auto simp add: convert_value_def strip_empty)
  have "convert_value py (CStr ''07'') = Inr (PInt 7)"
    by (simp add: general int_07 strip_07)
  moreover have "convert_value py (CStr ''3.5'') = Inr (PFloat (float_value py ''3.5''))"
    by (simp add: general int_3_5 float_3_5 strip_3_5)
  moreover have "convert_value py (CStr ''  hi  '') = Inr (PStr ''hi'')"
    by (simp add: general int_hi float_hi strip_hi)
  moreover have "convert_value py (CStr []) = Inr PNone"
    by (simp add: general strip_empty)
  ultimately show ?thesis using general [of v] by simp
qed

section \<open>Validation before any process\<close>

text \<open>
  C1. A request whose VCS is outside the six supported ones, or whose analysis is outside
  the eighteen supported ones, or whose log file does not exist, makes \<open>run_analysis\<close>
  fail with a validation error, in the world it started in: no call of
  \<open>subprocess.run\<close> has been logged, so no process was spawned.
\<close>

theorem invalid_request_rejected_before_spawn:
  "vcs \<notin> set SUPPORTED_VCS \<or> analysis \<notin> set SUPPORTED_ANALYSES \<or> \<not> os_path_exists w log_file \<Longrightarrow>
   (\<exists>m. run_analysis py config w log_file vcs analysis kwargs = (Inl (CodeMaatError validation m), w))
   \<and> invocations (snd (run_analysis py config w log_file vcs analysis kwargs)) = invocations w
   \<and> set SUPPORTED_VCS = {''git'', ''git2'', ''svn'', ''hg'', ''p4'', ''tfs''}
   \<and> length SUPPORTED_ANALYSES = 18 \<and> distinct SUPPORTED_ANALYSES"
proof -
  assume bad: "vcs \<notin> set SUPPORTED_VCS \<or> analysis \<notin> set SUPPORTED_ANALYSES \<or> \<not> os_path_exists w log_file"
  have r: "\<exists>m. run_analysis py config w log_file vcs analysis kwargs = (Inl (CodeMaatError validation m), w)"
    using bad by (auto simp add: run_analysis_def validate_inputs_def)
  then have "invocations (snd (run_analysis py config w log_file vcs analysis kwargs)) = invocations w"
    by auto
  moreover note r
  moreover have "set SUPPORTED_VCS = {''git'', ''git2'', ''svn'', ''hg'', ''p4'', ''tfs''}"
    by (simp add: SUPPORTED_VCS_def)
  moreover have "length SUPPORTED_ANALYSES = 18 \<and> distinct SUPPORTED_ANALYSES"
    by (simp add: SUPPORTED_ANALYSES_def)
  ultimately show ?thesis by blast
qed

theorem invalid_request_witness:
  "''cvs'' \<notin> set SUPPORTED_VCS
   \<and> (\<exists>m. run_analysis demo_runtime demo_config demo_world ''/repo/history.log'' ''cvs'' ''authors'' []
          = (Inl (CodeMaatError validation m), demo_world))"
proof -
  have h: "''cvs'' \<notin> set SUPPORTED_VCS" by (simp add: SUPPORTED_VCS_def)
  then show ?thesis
    using invalid_request_rejected_before_spawn
      [of "''cvs''" "''authors''" demo_world "''/repo/history.log''" demo_runtime demo_config "[]"]
    by blast
qed

section \<open>Failures of the engine\<close>




section \<open>The contract of log generation\<close>














section \<open>The command vector\<close>

lemma extend_params_concat:
  "extend_params cmd kwargs = cmd @ concat (map flag_and_value kwargs)"
  by (induction kwargs arbitrary: cmd) (auto simp add: flag_and_value_def split: option.splits)

lemma add_optional_params_eq:
  "add_optional_params cmd kwargs = cmd @ concat (map flag_and_value kwargs) @ verbose_flag kwargs"
  by (simp add: add_optional_params_def verbose_flag_def extend_params_concat Let_def
           split: option.splits)

lemma str_50: "str_int 50 = ''50''" by code_simp
lemma str_5: "str_int 5 = ''5''" by code_simp

lemma table:
  "map_of param_mapping ''rows'' = Some ''-r''"
  "map_of param_mapping ''group'' = Some ''-g''"
  "map_of param_mapping ''min_revs'' = Some ''-n''"
  "map_of param_mapping ''min_coupling'' = Some ''-i''"
  "map_of param_mapping ''colour'' = None"
  "map_of param_mapping ''verbose_results'' = None"
  by (simp_all add: param_mapping_def)

lemma map_of_remove:
  "k \<noteq> p \<Longrightarrow> map_of (xs @ (p, v) # ys) k = map_of (xs @ ys) k"
  by (induction xs) auto

lemma map_of_at:
  "p \<notin> fst ` set xs \<Longrightarrow> map_of (xs @ (p, v) # ys) p = Some v"
  by (induction xs) auto

lemma verbose_flag_remove_other:
  "p \<noteq> ''verbose_results'' \<Longrightarrow> verbose_flag (xs @ (p, v) # ys) = verbose_flag (xs @ ys)"
  by (simp add: verbose_flag_def map_of_remove del: map_of_append)

lemma verbose_flag_here:
  "distinct (map fst (xs @ (''verbose_results'', v) # ys)) \<Longrightarrow>
   verbose_flag (xs @ (''verbose_results'', v) # ys) = (if truthy v then [''--verbose-results''] else [])
   \<and> verbose_flag (xs @ ys) = []"
proof -
  assume d: "distinct (map fst (xs @ (''verbose_results'', v) # ys))"
  then have nx: "''verbose_results'' \<notin> fst ` set xs" and ny: "''verbose_results'' \<notin> fst ` set ys"
    by auto
  have n: "map_of (xs @ ys) ''verbose_results'' = None"
    using nx ny by (simp add: map_of_eq_None_iff image_Un del: map_of_append)
  have s: "map_of (xs @ (''verbose_results'', v) # ys) ''verbose_results'' = Some v"
    using nx by (rule map_of_at)
  show ?thesis unfolding verbose_flag_def n s by simp
qed

text \<open>
  C3, as stated, fails on a recognized parameter whose value is \<open>None\<close>: the loop
  guards on \<open>value is not None\<close>, so \<open>rows=None\<close> adds neither \<open>-r\<close> nor a
  value to the vector.
\<close>

theorem none_value_counterexample:
  "map_of param_mapping ''rows'' = Some ''-r''
   \<and> build_command demo_config ''/repo/history.log'' ''git2'' ''coupling'' [(''rows'', ANone)]
       = [''java'', ''-Xmx4g'', ''-jar'', ''/srv/target/code-maat.jar'', ''-l'', ''/repo/history.log'',
          ''-c'', ''git2'', ''-a'', ''coupling'']"
  by (simp add: build_command_def add_optional_params_def demo_config_def table)

text \<open>
  C3, amended. The command vector is the runtime executable, the runtime options,
  \<open>-jar\<close> and the engine path, \<open>-l\<close> and the log path, \<open>-c\<close> and the VCS,
  \<open>-a\<close> and the analysis; then, for each item of the parameters in turn, the flag
  the table gives its name followed at once by its value as a string, where the name is
  in the table and the value is not \<open>None\<close>, and nothing otherwise; then the bare flag
  \<open>--verbose-results\<close>, with nothing after it, exactly when \<open>verbose_results\<close> is
  given a true value. The table is the one of the specification. With
  \<open>min_coupling=50\<close> and \<open>verbose_results=True\<close> the vector ends with \<open>-i\<close>,
  \<open>50\<close>, \<open>--verbose-results\<close>.
\<close>

theorem command_vector_shape:
  "build_command config log_file vcs analysis kwargs =
     [java_executable config] @ java_opts config
       @ [''-jar'', jar_path config, ''-l'', log_file, ''-c'', vcs, ''-a'', analysis]
       @ concat (map flag_and_value kwargs) @ verbose_flag kwargs
   \<and> param_mapping =
       [(''rows'', ''-r''), (''group'', ''-g''), (''team_map_file'', ''-p''), (''min_revs'', ''-n''),
        (''min_shared_revs'', ''-m''), (''min_coupling'', ''-i''), (''max_coupling'', ''-x''),
        (''max_changeset_size'', ''-s''), (''expression_to_match'', ''-e''),
        (''temporal_period'', ''-t''), (''age_time_now'', ''-d''),
        (''input_encoding'', ''--input-encoding'')]
   \<and> build_command config log_file vcs analysis
         [(''min_coupling'', AInt 50), (''verbose_results'', ABool True)] =
       [java_executable config] @ java_opts config
         @ [''-jar'', jar_path config, ''-l'', log_file, ''-c'', vcs, ''-a'', analysis,
            ''-i'', ''50'', ''--verbose-results'']"
  by (simp add: build_command_def add_optional_params_eq flag_and_value_def verbose_flag_def
        table str_50)
     (simp add: param_mapping_def)

text \<open>
  C5, as stated, fails on the position of \<open>--verbose-results\<close>: the flag is appended
  after the loop, so with \<open>verbose_results\<close> inserted before \<open>rows\<close> the vector
  still has \<open>-r 5\<close> first.
\<close>

theorem verbose_position_counterexample:
  "build_command demo_config ''/repo/history.log'' ''git2'' ''coupling''
     [(''verbose_results'', ABool True), (''rows'', AInt 5)]
   = [''java'', ''-Xmx4g'', ''-jar'', ''/srv/target/code-maat.jar'', ''-l'', ''/repo/history.log'',
      ''-c'', ''git2'', ''-a'', ''coupling'', ''-r'', ''5'', ''--verbose-results'']"
  by (simp add: build_command_def add_optional_params_def demo_config_def table str_5)

text \<open>
  C5, amended. The flags that carry a value appear in the insertion order of the
  parameters: where a recognized parameter with a value stands before another one in the
  mapping, its flag and value stand before the other's in the vector, with between them
  exactly what the parameters between them contribute. The flag \<open>--verbose-results\<close>
  is not in that order: wherever \<open>verbose_results\<close> stands in the mapping, the flag
  comes last, after what the other parameters contribute.
\<close>

theorem flags_follow_insertion_order:
  "(map_of param_mapping p1 = Some f1 \<and> v1 \<noteq> ANone
      \<and> map_of param_mapping p2 = Some f2 \<and> v2 \<noteq> ANone \<longrightarrow>
      add_optional_params cmd (xs @ (p1, v1) # ys @ (p2, v2) # zs)
        = cmd @ extend_params [] xs @ [f1, py_str v1] @ extend_params [] ys @ [f2, py_str v2]
            @ extend_params [] zs @ verbose_flag (xs @ (p1, v1) # ys @ (p2, v2) # zs))
   \<and> (distinct (map fst (xs @ (''verbose_results'', v) # ys)) \<longrightarrow>
        add_optional_params cmd (xs @ (''verbose_results'', v) # ys)
          = extend_params cmd (xs @ ys) @ (if truthy v then [''--verbose-results''] else []))"
proof -
  have "flag_and_value (''verbose_results'', v) = []"
    by (simp add: flag_and_value_def table)
  then show ?thesis
    using verbose_flag_here [of xs v ys]
    by (auto simp add: extend_params_concat add_optional_params_eq flag_and_value_def)
qed

theorem flags_follow_insertion_order_witness:
  "add_optional_params [''java''] [(''rows'', AInt 5), (''group'', AStr ''team'')]
     = [''java'', ''-r'', ''5'', ''-g'', ''team'']
   \<and> add_optional_params [''java''] [(''verbose_results'', ABool True), (''rows'', AInt 5)]
     = [''java'', ''-r'', ''5'', ''--verbose-results'']"
proof -
  have "add_optional_params [''java''] [(''rows'', AInt 5), (''group'', AStr ''team'')]
     = [''java'', ''-r'', ''5'', ''-g'', ''team'']"
    using flags_follow_insertion_order
      [of "''rows''" "''-r''" "AInt 5" "''group''" "''-g''" "AStr ''team''" "[''java'']" "[]" "[]" "[]"]
    by (simp add: table str_5 verbose_flag_def)
  moreover have "add_optional_params [''java''] [(''verbose_results'', ABool True), (''rows'', AInt 5)]
     = [''java'', ''-r'', ''5'', ''--verbose-results'']"
    using flags_follow_insertion_order
      [of _ _ _ _ _ _ "[''java'']" "[]" "[(''rows'', AInt 5)]" _ "ABool True"]
    by (simp add: table str_5)
  ultimately show ?thesis by blast
qed

text \<open>
  C10. A parameter passed with the value \<open>None\<close> adds nothing to the command vector:
  the vector is the one built from the parameters without it. The same holds of a
  parameter whose name is not recognized, whatever its value. (The keys of the mapping
  are distinct, as those of a \<open>dict\<close> are.)
\<close>

theorem none_value_is_omitted:
  "(distinct (map fst (xs @ (p, ANone) # ys)) \<longrightarrow>
      add_optional_params cmd (xs @ (p, ANone) # ys) = add_optional_params cmd (xs @ ys))
   \<and> (map_of param_mapping q = None \<and> q \<noteq> ''verbose_results'' \<longrightarrow>
      add_optional_params cmd (xs @ (q, v) # ys) = add_optional_params cmd (xs @ ys))"
proof -
  have none: "flag_and_value (p, ANone) = []"
    by (simp add: flag_and_value_def split: option.splits)
  have a: "add_optional_params cmd (xs @ (p, ANone) # ys) = add_optional_params cmd (xs @ ys)"
    if d: "distinct (map fst (xs @ (p, ANone) # ys))"
  proof (cases "p = ''verbose_results''")
    case True
    then show ?thesis using verbose_flag_here [of xs ANone ys] d none
      by (simp add: add_optional_params_eq)
  next
    case False
    then show ?thesis using none by (simp add: add_optional_params_eq verbose_flag_remove_other)
  qed
  have b: "add_optional_params cmd (xs @ (q, v) # ys) = add_optional_params cmd (xs @ ys)"
    if "map_of param_mapping q = None" "q \<noteq> ''verbose_results''"
    using that by (simp add: add_optional_params_eq verbose_flag_remove_other flag_and_value_def)
  show ?thesis using a b by blast
qed

theorem none_value_is_omitted_witness:
  "add_optional_params [''java''] [(''rows'', ANone), (''min_revs'', AInt 5)]
     = add_optional_params [''java''] [(''min_revs'', AInt 5)]
   \<and> add_optional_params [''java''] [(''colour'', AStr ''red''), (''min_revs'', AInt 5)]
     = add_optional_params [''java''] [(''min_revs'', AInt 5)]
   \<and> add_optional_params [''java''] [(''min_revs'', AInt 5)] = [''java'', ''-n'', ''5'']"
proof -
  have "add_optional_params [''java''] [(''rows'', ANone), (''min_revs'', AInt 5)]
     = add_optional_params [''java''] [(''min_revs'', AInt 5)]"
    using none_value_is_omitted [of "[]" "''rows''" "[(''min_revs'', AInt 5)]" "[''java'']"]
    by simp
  moreover have "add_optional_params [''java''] [(''colour'', AStr ''red''), (''min_revs'', AInt 5)]
     = add_optional_params [''java''] [(''min_revs'', AInt 5)]"
    using none_value_is_omitted [of "[]" _ "[(''min_revs'', AInt 5)]" "[''java'']" "''colour''" "AStr ''red''"]
    by (simp add: table)
  moreover have "add_optional_params [''java''] [(''min_revs'', AInt 5)] = [''java'', ''-n'', ''5'']"
    by (simp add: add_optional_params_def table str_5)
  ultimately show ?thesis by blast
qed

section \<open>Rows shorter and longer than the header row\<close>

lemma map_of_dict_set: "map_of (dict_set d k v) = (map_of d)(k \<mapsto> v)"
  by (induction d) (auto simp add: fun_eq_iff)

lemma keys_dict_set: "fst ` set (dict_set d k v) = insert k (fst ` set d)"
  by (simp add: dom_map_of_conv_image_fst [symmetric] map_of_dict_set)

lemma distinct_dict_set: "distinct (map fst d) \<Longrightarrow> distinct (map fst (dict_set d k v))"
proof (induction d)
  case Nil
  then show ?case by simp
next
  case (Cons a d)
  obtain k' v' where a: "a = (k', v')" by (cases a)
  show ?case
  proof (cases "k' = k")
    case True
    then show ?thesis using Cons.prems a by (simp add: image_iff)
  next
    case False
    have "k' \<notin> fst ` set (dict_set d k v)"
      using Cons.prems a False by (simp add: keys_dict_set)
    then show ?thesis using Cons a False by simp
  qed
qed

lemma in_dict_set: "(k, v) \<in> set (dict_set d k v)"
  by (induction d) auto

lemma plain_dict_set:
  "list_all (plain \<circ> snd) d \<Longrightarrow> plain v \<Longrightarrow> list_all (plain \<circ> snd) (dict_set d k v)"
  by (induction d) auto


lemma foldl_pairs_plain:
  "list_all (plain \<circ> snd) d \<Longrightarrow> list_all (plain \<circ> snd) kvs \<Longrightarrow>
   list_all (plain \<circ> snd) (foldl (\<lambda>d (k, v). dict_set d k v) d kvs)"
  by (induction kvs arbitrary: d) (auto simp add: plain_dict_set)

lemma foldl_pairs_distinct:
  "distinct (map fst d) \<Longrightarrow> distinct (map fst (foldl (\<lambda>d (k, v). dict_set d k v) d kvs))"
  by (induction kvs arbitrary: d) (auto simp add: distinct_dict_set)

lemma zip_plain: "list_all (plain \<circ> snd) (zip ks (map CStr r))"
proof -
  have "plain (snd p)" if "p \<in> set (zip ks (map CStr r))" for p
  proof -
    have "snd p \<in> set (map CStr r)" using that by (metis prod.collapse set_zip_rightD)
    then show ?thesis by (auto simp add: plain_def)
  qed
  then show ?thesis by (simp add: list_all_iff)
qed

lemma dict_of_plain: "list_all (plain \<circ> snd) (dict_of (zip ks (map CStr r)))"
  unfolding dict_of_def by (rule foldl_pairs_plain) (simp_all add: zip_plain)

lemma dict_of_distinct: "distinct (map fst (dict_of kvs))"
  unfolding dict_of_def by (rule foldl_pairs_distinct) simp

lemma fill_plain:
  "list_all (plain \<circ> snd) d \<Longrightarrow>
   list_all (plain \<circ> snd) (foldl (\<lambda>d key. dict_set d (Some key) CNone) d ks)"
  by (induction ks arbitrary: d) (auto simp add: plain_dict_set plain_def)

lemma fill_distinct:
  "distinct (map fst d) \<Longrightarrow>
   distinct (map fst (foldl (\<lambda>d key. dict_set d (Some key) CNone) d ks))"
  by (induction ks arbitrary: d) (auto simp add: distinct_dict_set)

lemma fill_map_of:
  "k \<in> set ks \<Longrightarrow>
   map_of (foldl (\<lambda>d key. dict_set d (Some key) CNone) d ks) (Some k) = Some CNone"
proof (induction ks arbitrary: d rule: rev_induct)
  case Nil
  then show ?case by simp
next
  case (snoc x xs)
  show ?case
  proof (cases "k = x")
    case True
    then show ?thesis by (simp add: map_of_dict_set)
  next
    case False
    then have "k \<in> set xs" using snoc.prems by simp
    then show ?thesis using snoc.IH False by (simp add: map_of_dict_set)
  qed
qed

lemma nth_in_drop: "n \<le> j \<Longrightarrow> j < length xs \<Longrightarrow> xs ! j \<in> set (drop n xs)"
proof -
  assume a: "n \<le> j" "j < length xs"
  then have "drop n xs ! (j - n) = xs ! j" by simp
  moreover have "j - n < length (drop n xs)" using a by simp
  ultimately show ?thesis by (metis nth_mem)
qed

lemma DictReader_row_short:
  assumes "length row \<le> length fieldnames"
  shows "list_all (plain \<circ> snd) (DictReader_row fieldnames row)"
    and "distinct (map fst (DictReader_row fieldnames row))"
    and "length row \<le> j \<Longrightarrow> j < length fieldnames \<Longrightarrow>
         map_of (DictReader_row fieldnames row) (Some (fieldnames ! j)) = Some CNone"
proof -
  show "list_all (plain \<circ> snd) (DictReader_row fieldnames row)"
    using assms by (simp add: DictReader_row_def Let_def fill_plain dict_of_plain)
  show "distinct (map fst (DictReader_row fieldnames row))"
    using assms by (simp add: DictReader_row_def Let_def fill_distinct dict_of_distinct)
  show "map_of (DictReader_row fieldnames row) (Some (fieldnames ! j)) = Some CNone"
    if "length row \<le> j" "j < length fieldnames"
  proof -
    have "fieldnames ! j \<in> set (drop (length row) fieldnames)"
      using that by (rule nth_in_drop)
    then show ?thesis
      using that by (simp add: DictReader_row_def Let_def fill_map_of)
  qed
qed

lemma DictReader_row_long:
  "length fieldnames < length row \<Longrightarrow>
   (None, CList (drop (length fieldnames) row)) \<in> set (DictReader_row fieldnames row)
   \<and> drop (length fieldnames) row \<noteq> []"
  by (simp add: DictReader_row_def Let_def in_dict_set)


lemma convert_value_plain: "plain c \<Longrightarrow> \<exists>v. convert_value py c = Inr v"
  by (auto simp add: convert_value_def plain_def split: cell.splits option.splits)

lemma convert_value_CNone: "convert_value py CNone = Inr PNone"
  by (simp add: convert_value_def)

lemma convert_value_error:
  "convert_value py c = Inl e \<Longrightarrow> e = AttributeError list_has_no_strip"
  by (auto simp add: convert_value_def split: cell.splits option.splits if_splits)

lemma convert_value_list: "l \<noteq> [] \<Longrightarrow> convert_value py (CList l) = Inl (AttributeError list_has_no_strip)"
  by (simp add: convert_value_def)

lemma convert_items_plain:
  "list_all (plain \<circ> snd) items \<Longrightarrow> \<exists>res. convert_items py items acc = Inr res"
proof (induction items arbitrary: acc)
  case Nil
  then show ?case by simp
next
  case (Cons a items)
  obtain k c where a: "a = (k, c)" by (cases a)
  with Cons.prems obtain v where "convert_value py c = Inr v"
    using convert_value_plain [of c py] by auto
  then show ?case using Cons a by simp
qed

lemma convert_items_error:
  "convert_items py items acc = Inl e \<Longrightarrow> e = AttributeError list_has_no_strip"
proof (induction items arbitrary: acc)
  case Nil
  then show ?case by simp
next
  case (Cons a items)
  obtain k c where a: "a = (k, c)" by (cases a)
  show ?case
  proof (cases "convert_value py c")
    case (Inl e')
    then show ?thesis using Cons.prems a convert_value_error [of py c e'] by simp
  next
    case (Inr v)
    then show ?thesis using Cons a by simp
  qed
qed

lemma convert_items_list:
  "(k, CList l) \<in> set items \<Longrightarrow> l \<noteq> [] \<Longrightarrow> \<exists>e. convert_items py items acc = Inl e"
proof (induction items arbitrary: acc)
  case Nil
  then show ?case by simp
next
  case (Cons a items)
  obtain k' c where a: "a = (k', c)" by (cases a)
  show ?case
  proof (cases "convert_value py c")
    case (Inl e')
    then show ?thesis using a by simp
  next
    case (Inr v)
    then have "c \<noteq> CList l" using Cons.prems(2) by (auto simp add: convert_value_list)
    then have "(k, CList l) \<in> set items" using Cons.prems(1) a by auto
    then show ?thesis using Cons.IH Cons.prems(2) Inr a by simp
  qed
qed

lemma convert_items_other:
  "convert_items py items acc = Inr res \<Longrightarrow> k \<notin> fst ` set items \<Longrightarrow> map_of res k = map_of acc k"
proof (induction items arbitrary: acc)
  case Nil
  then show ?case by simp
next
  case (Cons a items)
  obtain k' c where a: "a = (k', c)" by (cases a)
  from Cons.prems a obtain v where v: "convert_value py c = Inr v"
    and r: "convert_items py items (dict_set acc k' v) = Inr res"
    by (auto split: sum.splits)
  have "map_of res k = map_of (dict_set acc k' v) k"
    using Cons.IH [OF r] Cons.prems(2) by simp
  then show ?case using Cons.prems(2) a by (simp add: map_of_dict_set)
qed

lemma convert_items_absent:
  "convert_items py items acc = Inr res \<Longrightarrow> distinct (map fst items) \<Longrightarrow>
   map_of items k = Some CNone \<Longrightarrow> map_of res k = Some PNone"
proof (induction items arbitrary: acc)
  case Nil
  then show ?case by simp
next
  case (Cons a items)
  obtain k' c where a: "a = (k', c)" by (cases a)
  from Cons.prems a obtain v where v: "convert_value py c = Inr v"
    and r: "convert_items py items (dict_set acc k' v) = Inr res"
    by (auto split: sum.splits)
  show ?case
  proof (cases "k' = k")
    case True
    then have "c = CNone" using Cons.prems(3) a by simp
    then have "v = PNone" using v by (simp add: convert_value_CNone)
    moreover have "k \<notin> fst ` set items" using Cons.prems(2) a True by (simp add: image_iff)
    ultimately show ?thesis
      using convert_items_other [OF r, of k] True by (simp add: map_of_dict_set)
  next
    case False
    then have "map_of items k = Some CNone" using Cons.prems(3) a by simp
    then show ?thesis using Cons.IH [OF r] Cons.prems(2) by simp
  qed
qed

lemma parse_rows_short:
  "list_all (\<lambda>row. length row \<le> length fieldnames) data \<Longrightarrow>
   \<exists>recs. parse_rows py fieldnames data results = Inr (results @ recs)
        \<and> list_all2 (\<lambda>row r. convert_items py (DictReader_row fieldnames row) [] = Inr r)
                    (filter (\<lambda>row. row \<noteq> []) data) recs"
proof (induction data arbitrary: results)
  case Nil
  then show ?case by simp
next
  case (Cons row data)
  show ?case
  proof (cases "row = []")
    case True
    then show ?thesis using Cons by simp
  next
    case False
    have "length row \<le> length fieldnames" using Cons.prems by simp
    then obtain r where r: "convert_items py (DictReader_row fieldnames row) [] = Inr r"
      using convert_items_plain DictReader_row_short(1) by blast
    from Cons.prems have "list_all (\<lambda>row. length row \<le> length fieldnames) data" by simp
    from Cons.IH [OF this, of "results @ [r]"] obtain recs where
      "parse_rows py fieldnames data (results @ [r]) = Inr ((results @ [r]) @ recs)"
      "list_all2 (\<lambda>row r. convert_items py (DictReader_row fieldnames row) [] = Inr r)
                    (filter (\<lambda>row. row \<noteq> []) data) recs"
      by blast
    then show ?thesis using False r by (intro exI [of _ "r # recs"]) simp
  qed
qed

lemma parse_rows_long:
  "\<not> list_all (\<lambda>row. length row \<le> length fieldnames) data \<Longrightarrow>
   parse_rows py fieldnames data results = Inl (AttributeError list_has_no_strip)"
proof (induction data arbitrary: results)
  case Nil
  then show ?case by simp
next
  case (Cons row data)
  show ?case
  proof (cases "length row \<le> length fieldnames")
    case True
    then have rest: "\<not> list_all (\<lambda>row. length row \<le> length fieldnames) data"
      using Cons.prems by simp
    show ?thesis
    proof (cases "row = []")
      case True
      then show ?thesis using Cons.IH [OF rest] by simp
    next
      case False
      obtain r where r: "convert_items py (DictReader_row fieldnames row) [] = Inr r"
        using convert_items_plain DictReader_row_short(1) True by blast
      then show ?thesis using False Cons.IH [OF rest] by simp
    qed
  next
    case False
    then have long: "length fieldnames < length row" by simp
    then have ne: "row \<noteq> []" by auto
    have "(None, CList (drop (length fieldnames) row)) \<in> set (DictReader_row fieldnames row)"
      and "drop (length fieldnames) row \<noteq> []"
      using DictReader_row_long [OF long] by simp_all
    then obtain e where e: "convert_items py (DictReader_row fieldnames row) [] = Inl e"
      using convert_items_list by blast
    then have "e = AttributeError list_has_no_strip" by (rule convert_items_error)
    then show ?thesis using e ne by simp
  qed
qed

text \<open>
  C9. Let the output not be blank and its header row have \<open>n\<close> column names. The data
  rows are the rows \<open>DictReader\<close> yields: the rows after the header row that have a
  field (it skips blank lines). Where no data row has more than \<open>n\<close> fields, and the
  reader reads the text to its end, the parse succeeds with one record for each data row,
  in order, and in the record of a row with fewer than \<open>n\<close> fields every column
  beyond the fields of the row is absent. Where some data row has more than \<open>n\<close>
  fields, the whole parse fails with a parse error: the surplus fields are a list, which
  cannot be converted.
\<close>

theorem short_rows_padded_long_rows_fail:
  assumes "strip text \<noteq> []"
    and "csv_reader py text = (fieldnames # data, err)"
  shows "(list_all (\<lambda>row. length row \<le> length fieldnames) data \<and> err = None \<longrightarrow>
           (\<exists>results.
              parse_csv_output py text = Inr results
              \<and> length results = length (filter (\<lambda>row. row \<noteq> []) data)
              \<and> (\<forall>i j. i < length results
                      \<and> length (filter (\<lambda>row. row \<noteq> []) data ! i) \<le> j \<and> j < length fieldnames \<longrightarrow>
                      map_of (results ! i) (Some (fieldnames ! j)) = Some PNone)))
       \<and> (\<not> list_all (\<lambda>row. length row \<le> length fieldnames) data \<longrightarrow>
           parse_csv_output py text
             = Inl (CodeMaatError parse (''Failed to parse CSV output: '' @ list_has_no_strip)))"
proof (intro conjI impI)
  assume a: "list_all (\<lambda>row. length row \<le> length fieldnames) data \<and> err = None"
  let ?rows = "filter (\<lambda>row. row \<noteq> []) data"
  from a obtain recs where p: "parse_rows py fieldnames data [] = Inr ([] @ recs)"
    and l: "list_all2 (\<lambda>row r. convert_items py (DictReader_row fieldnames row) [] = Inr r) ?rows recs"
    using parse_rows_short [of fieldnames data py "[]"] by blast
  have out: "parse_csv_output py text = Inr recs"
    using assms a p by (simp add: parse_csv_output_def)
  have len: "length recs = length ?rows" using l by (simp add: list_all2_lengthD)
  have pad: "map_of (recs ! i) (Some (fieldnames ! j)) = Some PNone"
    if "i < length recs" "length (?rows ! i) \<le> j" "j < length fieldnames" for i j
  proof -
    have c: "convert_items py (DictReader_row fieldnames (?rows ! i)) [] = Inr (recs ! i)"
      using list_all2_nthD [OF l, of i] that(1) len by simp
    have "?rows ! i \<in> set data" using that(1) len by (metis filter_is_subset nth_mem subsetD)
    then have short: "length (?rows ! i) \<le> length fieldnames"
      using a by (simp add: list_all_iff)
    show ?thesis
      using convert_items_absent [OF c DictReader_row_short(2) [OF short]
              DictReader_row_short(3) [OF short that(2) that(3)]] .
  qed
  show "\<exists>results.
              parse_csv_output py text = Inr results
              \<and> length results = length ?rows
              \<and> (\<forall>i j. i < length results
                      \<and> length (?rows ! i) \<le> j \<and> j < length fieldnames \<longrightarrow>
                      map_of (results ! i) (Some (fieldnames ! j)) = Some PNone)"
    using out len pad by blast
next
  assume "\<not> list_all (\<lambda>row. length row \<le> length fieldnames) data"
  then have "parse_rows py fieldnames data [] = Inl (AttributeError list_has_no_strip)"
    by (rule parse_rows_long)
  then show "parse_csv_output py text
             = Inl (CodeMaatError parse (''Failed to parse CSV output: '' @ list_has_no_strip))"
    using assms by (simp add: parse_csv_output_def)
qed

lemma text_not_blank:
  "strip (''a,b'' @ CHR 0x0A # ''1'') \<noteq> []"
  "strip (''a,b'' @ CHR 0x0A # ''1,2,3'') \<noteq> []"
  by code_simp+

lemma demo_reader:
  "csv_reader demo_runtime (''a,b'' @ CHR 0x0A # ''1'') = ([''a'', ''b''] # [[''1'']], None)"
  "csv_reader demo_runtime (''a,b'' @ CHR 0x0A # ''1,2,3'')
     = ([''a'', ''b''] # [[''1'', ''2'', ''3'']], None)"
  by (simp_all add: demo_runtime_def plain_reader_def text_lines_def)

theorem short_rows_padded_long_rows_fail_witness:
  "(\<exists>results. parse_csv_output demo_runtime (''a,b'' @ CHR 0x0A # ''1'') = Inr results
        \<and> length results = 1
        \<and> map_of (results ! 0) (Some ''b'') = Some PNone)
   \<and> parse_csv_output demo_runtime (''a,b'' @ CHR 0x0A # ''1,2,3'')
       = Inl (CodeMaatError parse (''Failed to parse CSV output: '' @ list_has_no_strip))"
proof -
  note short =
    short_rows_padded_long_rows_fail [OF text_not_blank(1) demo_reader(1)]
  note long =
    short_rows_padded_long_rows_fail [OF text_not_blank(2) demo_reader(2)]
  obtain results where r: "parse_csv_output demo_runtime (''a,b'' @ CHR 0x0A # ''1'') = Inr results"
    "length results = 1"
    and pad: "\<forall>i j. i < length results
                      \<and> length (filter (\<lambda>row. row \<noteq> []) [[''1'']] ! i) \<le> j \<and> j < length [''a'', ''b''] \<longrightarrow>
                      map_of (results ! i) (Some ([''a'', ''b''] ! j)) = Some PNone"
    using short by auto
  have "map_of (results ! 0) (Some ''b'') = Some PNone"
    using pad [rule_format, of 0 1] r(2) by simp
  moreover have "parse_csv_output demo_runtime (''a,b'' @ CHR 0x0A # ''1,2,3'')
       = Inl (CodeMaatError parse (''Failed to parse CSV output: '' @ list_has_no_strip))"
    using long by simp
  ultimately show ?thesis using r by blast
qed

section \<open>Resolving the configuration\<close>

lemma load_config_absent:
  "text_of w (config_file py config_path) = Inl (FileNotFoundError m) \<Longrightarrow>
   load_config py w config_path = Inr (CodeMaatConfig_init default_jar_path ''java'' None)"
  by (simp add: load_config_def)

lemma load_config_undecodable:
  "text_of w (config_file py config_path) = Inr text \<Longrightarrow> json_load py text = None \<Longrightarrow>
   load_config py w config_path = Inr (CodeMaatConfig_init default_jar_path ''java'' None)"
  by (simp add: load_config_def)

lemma load_config_unreadable:
  "text_of w (config_file py config_path) = Inl e \<Longrightarrow> (\<And>m. e \<noteq> FileNotFoundError m) \<Longrightarrow>
   load_config py w config_path = Inl e"
  by (cases e) (auto simp add: load_config_def)

lemma load_config_not_document:
  "text_of w (config_file py config_path) = Inr text \<Longrightarrow>
   json_load py text = Some (NotDocument ty) \<Longrightarrow>
   load_config py w config_path = Inl (AttributeError (no_attribute ty ''get''))"
  by (simp add: load_config_def)

lemma load_config_not_dict:
  "text_of w (config_file py config_path) = Inr text \<Longrightarrow>
   json_load py text = Some (Document (Some (NotDict ty))) \<Longrightarrow>
   load_config py w config_path = Inl (AttributeError (no_attribute ty ''get''))"
  by (simp add: load_config_def)

lemma default_config:
  "CodeMaatConfig_init default_jar_path ''java'' None
     = \<lparr>jar_path = ''../target/code-maat-1.0.5-SNAPSHOT-standalone.jar'',
        java_executable = ''java'',
        java_opts = [''-Xmx4g'', ''-Djava.awt.headless=true'', ''-Xss512M'']\<rparr>"
  by (simp add: CodeMaatConfig_init_def default_jar_path_def default_java_opts_def)

lemma validate_relative:
  "\<not> is_absolute (jar_path config) \<Longrightarrow>
   validate_config py w config
     = (if os_path_exists w (path_resolve py (base_dir py) (jar_path config))
        then Inr (config\<lparr>jar_path := path_resolve py (base_dir py) (jar_path config)\<rparr>)
        else Inl (CodeMaatError configuration
                    (''Code Maat JAR not found at: ''
                       @ path_resolve py (base_dir py) (jar_path config))))"
  by (simp add: validate_config_def Let_def)

lemma validate_absolute:
  "is_absolute (jar_path config) \<Longrightarrow>
   validate_config py w config
     = (if os_path_exists w (path_str py (jar_path config))
        then Inr (config\<lparr>jar_path := path_str py (jar_path config)\<rparr>)
        else Inl (CodeMaatError configuration
                    (''Code Maat JAR not found at: '' @ path_str py (jar_path config))))"
  by (simp add: validate_config_def Let_def)

lemma contract_resolve:
  "pathlib_contract py \<Longrightarrow>
   is_absolute (path_resolve py b p) \<and> path_str py (path_resolve py b p) = path_resolve py b p"
  unfolding pathlib_contract_def by blast

lemma contract_str:
  "pathlib_contract py \<Longrightarrow> is_absolute p \<Longrightarrow>
   is_absolute (path_str py p) \<and> path_str py (path_str py p) = path_str py p"
  unfolding pathlib_contract_def by blast

lemma validate_once:
  assumes c: "pathlib_contract py" and v: "validate_config py w config = Inr config'"
  shows "is_absolute (jar_path config') \<and> validate_config py w config' = Inr config'"
proof (cases "is_absolute (jar_path config)")
  case True
  let ?j = "path_str py (jar_path config)"
  from v validate_absolute [OF True, of py w] have e: "os_path_exists w ?j"
    and c': "config' = config\<lparr>jar_path := ?j\<rparr>"
    by (simp_all split: if_splits)
  have a: "is_absolute ?j" and i: "path_str py ?j = ?j"
    using contract_str [OF c True] by simp_all
  have j: "jar_path config' = ?j" using c' by simp
  have "validate_config py w config' = Inr (config'\<lparr>jar_path := ?j\<rparr>)"
    using validate_absolute [of config' py w] a i e j by simp
  then show ?thesis using a j c' by simp
next
  case False
  let ?j = "path_resolve py (base_dir py) (jar_path config)"
  from v validate_relative [OF False, of py w] have e: "os_path_exists w ?j"
    and c': "config' = config\<lparr>jar_path := ?j\<rparr>"
    by (simp_all split: if_splits)
  have a: "is_absolute ?j" and i: "path_str py ?j = ?j"
    using contract_resolve [OF c] by simp_all
  have j: "jar_path config' = ?j" using c' by simp
  have "validate_config py w config' = Inr (config'\<lparr>jar_path := ?j\<rparr>)"
    using validate_absolute [of config' py w] a i e j by simp
  then show ?thesis using a j c' by simp
qed


text \<open>
  What holds of the resolution. Where the configuration file does not exist, or its text
  does not decode as JSON, the configuration loaded is the built-in one. Validation
  replaces a relative engine path by its resolution against the base directory, and an
  absolute one by its string form, and fails with a configuration error where the path
  so obtained does not exist. Under the contract of \<open>pathlib\<close> the path of a validated
  configuration is absolute, and validating it again changes nothing: the rewriting
  happens once. The constructor validates the configuration it has loaded.
\<close>

lemma config_resolution:
  "((\<exists>m. text_of w (config_file py config_path) = Inl (FileNotFoundError m))
      \<or> (\<exists>text. text_of w (config_file py config_path) = Inr text \<and> json_load py text = None) \<longrightarrow>
      load_config py w config_path
        = Inr \<lparr>jar_path = ''../target/code-maat-1.0.5-SNAPSHOT-standalone.jar'',
               java_executable = ''java'',
               java_opts = [''-Xmx4g'', ''-Djava.awt.headless=true'', ''-Xss512M'']\<rparr>)
   \<and> (\<not> is_absolute (jar_path config) \<longrightarrow>
        validate_config py w config
          = (if os_path_exists w (path_resolve py (base_dir py) (jar_path config))
             then Inr (config\<lparr>jar_path := path_resolve py (base_dir py) (jar_path config)\<rparr>)
             else Inl (CodeMaatError configuration
                         (''Code Maat JAR not found at: ''
                            @ path_resolve py (base_dir py) (jar_path config)))))
   \<and> (is_absolute (jar_path config) \<longrightarrow>
        validate_config py w config
          = (if os_path_exists w (path_str py (jar_path config))
             then Inr (config\<lparr>jar_path := path_str py (jar_path config)\<rparr>)
             else Inl (CodeMaatError configuration
                         (''Code Maat JAR not found at: '' @ path_str py (jar_path config)))))
   \<and> (pathlib_contract py \<longrightarrow>
        (\<forall>config'. validate_config py w config = Inr config' \<longrightarrow>
           is_absolute (jar_path config') \<and> validate_config py w config' = Inr config'))
   \<and> (\<forall>loaded. load_config py w config_path = Inr loaded \<longrightarrow>
        CodeMaatWrapper_init py w config_path = validate_config py w loaded)"
proof (intro conjI impI allI)
  assume "(\<exists>m. text_of w (config_file py config_path) = Inl (FileNotFoundError m))
      \<or> (\<exists>text. text_of w (config_file py config_path) = Inr text \<and> json_load py text = None)"
  then have "load_config py w config_path = Inr (CodeMaatConfig_init default_jar_path ''java'' None)"
    using load_config_absent load_config_undecodable by blast
  then show "load_config py w config_path
        = Inr \<lparr>jar_path = ''../target/code-maat-1.0.5-SNAPSHOT-standalone.jar'',
               java_executable = ''java'',
               java_opts = [''-Xmx4g'', ''-Djava.awt.headless=true'', ''-Xss512M'']\<rparr>"
    by (simp only: default_config)
next
  assume "\<not> is_absolute (jar_path config)"
  then show "validate_config py w config
          = (if os_path_exists w (path_resolve py (base_dir py) (jar_path config))
             then Inr (config\<lparr>jar_path := path_resolve py (base_dir py) (jar_path config)\<rparr>)
             else Inl (CodeMaatError configuration
                         (''Code Maat JAR not found at: ''
                            @ path_resolve py (base_dir py) (jar_path config))))"
    by (rule validate_relative)
next
  assume "is_absolute (jar_path config)"
  then show "validate_config py w config
          = (if os_path_exists w (path_str py (jar_path config))
             then Inr (config\<lparr>jar_path := path_str py (jar_path config)\<rparr>)
             else Inl (CodeMaatError configuration
                         (''Code Maat JAR not found at: '' @ path_str py (jar_path config))))"
    by (rule validate_absolute)
next
  fix config'
  assume "pathlib_contract py" "validate_config py w config = Inr config'"
  then show "is_absolute (jar_path config')" by (rule validate_once [THEN conjunct1])
next
  fix config'
  assume "pathlib_contract py" "validate_config py w config = Inr config'"
  then show "validate_config py w config' = Inr config'" by (rule validate_once [THEN conjunct2])
next
  fix loaded
  assume "load_config py w config_path = Inr loaded"
  then show "CodeMaatWrapper_init py w config_path = validate_config py w loaded"
    by (simp add: CodeMaatWrapper_init_def)
qed

lemma config_world_text:
  "text_of (config_world doc) (config_file demo_runtime (Some config_path_demo)) = Inr doc"
  "text_of garbled_config_world (config_file demo_runtime (Some config_path_demo))
     = Inl (UnicodeDecodeError ''invalid start byte'')"
  "text_of demo_world (config_file demo_runtime (Some config_path_demo))
     = Inl (FileNotFoundError (errno ''[Errno 2] No such file or directory'' config_path_demo))"
  by (simp_all add: config_world_def garbled_config_world_def config_file_def demo_world_def
        demo_text_def config_path_demo_def demo_dirs_def demo_jars_def)

lemma demo_decoding:
  "json_load demo_runtime ''[]'' = Some (NotDocument ''list'')"
  "json_load demo_runtime ''{'' = None"
  by (simp_all add: demo_runtime_def demo_json_def)

text \<open>
  C8 holds of the code but for one case of its first sentence. A configuration file that
  is there and is not a configuration does not always give the defaults: for a document
  that decodes to something other than an object (\<open>[]\<close>), \<open>get\<close> raises
  \<open>AttributeError\<close>, and for a file whose bytes are not text the reading raises
  \<open>UnicodeDecodeError\<close>; the \<open>except\<close> clause names neither, so the constructor ends
  with that exception, where the comment on the clause says to use the defaults if the
  file is not found or invalid. A text that is not JSON (\<open>{\<close>) and a missing file do
  give the defaults.
\<close>

theorem invalid_config_not_defaulted:
  "load_config demo_runtime (config_world ''[]'') (Some config_path_demo)
     = Inl (AttributeError (no_attribute ''list'' ''get''))
   \<and> CodeMaatWrapper_init demo_runtime (config_world ''[]'') (Some config_path_demo)
     = Inl (AttributeError (no_attribute ''list'' ''get''))
   \<and> CodeMaatWrapper_init demo_runtime garbled_config_world (Some config_path_demo)
     = Inl (UnicodeDecodeError ''invalid start byte'')
   \<and> load_config demo_runtime (config_world ''{'') (Some config_path_demo)
     = Inr \<lparr>jar_path = ''../target/code-maat-1.0.5-SNAPSHOT-standalone.jar'',
            java_executable = ''java'',
            java_opts = [''-Xmx4g'', ''-Djava.awt.headless=true'', ''-Xss512M'']\<rparr>
   \<and> load_config demo_runtime demo_world (Some config_path_demo)
     = Inr \<lparr>jar_path = ''../target/code-maat-1.0.5-SNAPSHOT-standalone.jar'',
            java_executable = ''java'',
            java_opts = [''-Xmx4g'', ''-Djava.awt.headless=true'', ''-Xss512M'']\<rparr>"
proof -
  have a: "load_config demo_runtime (config_world ''[]'') (Some config_path_demo)
     = Inl (AttributeError (no_attribute ''list'' ''get''))"
    using config_world_text(1) demo_decoding(1) by (rule load_config_not_document)
  have b: "load_config demo_runtime garbled_config_world (Some config_path_demo)
     = Inl (UnicodeDecodeError ''invalid start byte'')"
    using config_world_text(2) by (rule load_config_unreadable) simp
  have c: "load_config demo_runtime (config_world ''{'') (Some config_path_demo)
     = Inr (CodeMaatConfig_init default_jar_path ''java'' None)"
    using config_world_text(1) demo_decoding(2) by (rule load_config_undecodable)
  have d: "load_config demo_runtime demo_world (Some config_path_demo)
     = Inr (CodeMaatConfig_init default_jar_path ''java'' None)"
    using config_world_text(3) by (rule load_config_absent)
  show ?thesis
    using a b c d by (simp add: CodeMaatWrapper_init_def default_config)
qed

end
